theory Spec2Isabelle
  imports Main "HOL-Library.Log_Nat" "HOL-Library.Sublist"
begin

section \<open>JavaScript numbers\<close>

text \<open>
  The services compute their scores with JavaScript numbers, that is IEEE 754 binary64
  values. A finite value is kept as the rational it denotes; \<open>fl\<close> rounds an exact
  rational result to the nearest binary64 value (ties to even, gradual underflow below
  \<open>2 powi - 1022\<close>, overflow to an infinity from \<open>2 ^ 1024\<close> on). In \<open>fl\<close> the
  exponent \<open>e\<close> is that of the exact result, \<open>u\<close> the unit in the last place and
  \<open>m\<close> the rounded significand, of magnitude at most \<open>2 ^ 53\<close>; the rounded value
  \<open>m * u\<close> reaches \<open>2 ^ 1024\<close> exactly when \<open>e\<close> is at least 1024, or is 1023
  with \<open>m\<close> of magnitude \<open>2 ^ 53\<close>. The sign of zero is not kept: none of the
  modelled operations can observe it.
\<close>

datatype jsnum = Num rat | NaN | PosInf | NegInf

definition rne :: "rat \<Rightarrow> int" where
  "rne q = (let f = \<lfloor>q\<rfloor>; d = q - of_int f
            in if d < 1 / 2 then f else if 1 / 2 < d then f + 1
               else if even f then f else f + 1)"

definition ilog2 :: "rat \<Rightarrow> int" where
  "ilog2 x = (if 1 \<le> x then bitlen \<lfloor>x\<rfloor> - 1 else - bitlen (\<lceil>1 / x\<rceil> - 1))"

definition fl :: "rat \<Rightarrow> jsnum" where
  "fl x = (if x = 0 then Num 0 else
     let e = max (ilog2 \<bar>x\<bar>) (- 1022);
         u = 2 powi (e - 52);
         m = rne (x / u)
     in if 1024 \<le> e \<or> (e = 1023 \<and> \<bar>m\<bar> = 2 ^ 53)
        then (if 0 < x then PosInf else NegInf)
        else Num (of_int m * u))"

text \<open>The operators \<open>+\<close>, \<open>*\<close> and \<open>/\<close> on numbers.\<close>

fun js_add :: "jsnum \<Rightarrow> jsnum \<Rightarrow> jsnum" where
  "js_add (Num a) (Num b) = fl (a + b)"
| "js_add NaN _ = NaN"
| "js_add _ NaN = NaN"
| "js_add PosInf NegInf = NaN"
| "js_add NegInf PosInf = NaN"
| "js_add PosInf _ = PosInf"
| "js_add NegInf _ = NegInf"
| "js_add _ PosInf = PosInf"
| "js_add _ NegInf = NegInf"

definition js_neg :: "jsnum \<Rightarrow> jsnum" where
  "js_neg x = (case x of Num a \<Rightarrow> Num (- a) | NaN \<Rightarrow> NaN
               | PosInf \<Rightarrow> NegInf | NegInf \<Rightarrow> PosInf)"

fun js_mul :: "jsnum \<Rightarrow> jsnum \<Rightarrow> jsnum" where
  "js_mul (Num a) (Num b) = fl (a * b)"
| "js_mul NaN _ = NaN"
| "js_mul _ NaN = NaN"
| "js_mul PosInf (Num b) = (if b = 0 then NaN else if 0 < b then PosInf else NegInf)"
| "js_mul NegInf (Num b) = (if b = 0 then NaN else if 0 < b then NegInf else PosInf)"
| "js_mul (Num a) PosInf = (if a = 0 then NaN else if 0 < a then PosInf else NegInf)"
| "js_mul (Num a) NegInf = (if a = 0 then NaN else if 0 < a then NegInf else PosInf)"
| "js_mul PosInf y = y"
| "js_mul NegInf y = js_neg y"

fun js_div :: "jsnum \<Rightarrow> jsnum \<Rightarrow> jsnum" where
  "js_div (Num a) (Num b) =
     (if b = 0 then (if a = 0 then NaN else if 0 < a then PosInf else NegInf)
      else fl (a / b))"
| "js_div NaN _ = NaN"
| "js_div _ NaN = NaN"
| "js_div (Num a) _ = Num 0"
| "js_div PosInf (Num b) = (if 0 \<le> b then PosInf else NegInf)"
| "js_div NegInf (Num b) = (if 0 \<le> b then NegInf else PosInf)"
| "js_div _ _ = NaN"

text \<open>
  \<open>Math.round\<close>: the nearest integer, a tie going up. The result of rounding a
  binary64 value is again one, so no second rounding happens.
\<close>

definition Math_round :: "jsnum \<Rightarrow> jsnum" where
  "Math_round x = (case x of Num a \<Rightarrow> Num (of_int \<lfloor>a + 1 / 2\<rfloor>) | _ \<Rightarrow> x)"

text \<open>The comparison \<open>x >= y\<close>; it is false as soon as one side is \<open>NaN\<close>.\<close>

fun js_ge :: "jsnum \<Rightarrow> jsnum \<Rightarrow> bool" where
  "js_ge (Num a) (Num b) = (b \<le> a)"
| "js_ge NaN _ = False"
| "js_ge _ NaN = False"
| "js_ge PosInf _ = True"
| "js_ge _ NegInf = True"
| "js_ge _ _ = False"

text \<open>\<open>x || 0\<close> on a number: \<open>NaN\<close> and zero are the falsy numbers.\<close>

definition or_zero :: "jsnum \<Rightarrow> jsnum" where
  "or_zero x = (case x of NaN \<Rightarrow> Num 0 | _ \<Rightarrow> x)"

text \<open>A decimal literal of the source text denotes the binary64 value nearest to it.\<close>

definition lit :: "rat \<Rightarrow> jsnum" where
  "lit r = fl r"

definition of_integer :: "int \<Rightarrow> jsnum" where
  "of_integer i = fl (of_int i)"

section \<open>Strings\<close>

text \<open>
  Strings are lists of 8-bit characters; \<open>toUpperCase\<close> is modelled on the ASCII
  letters, which is where the keywords looked for live.
\<close>

definition upperChar :: "char \<Rightarrow> char" where
  "upperChar c =
     (case map_of (zip ''abcdefghijklmnopqrstuvwxyz'' ''ABCDEFGHIJKLMNOPQRSTUVWXYZ'') c of
        None \<Rightarrow> c
      | Some u \<Rightarrow> u)"

definition toUpperCase :: "string \<Rightarrow> string" where
  "toUpperCase s = map upperChar s"

fun includes_str :: "string \<Rightarrow> string \<Rightarrow> bool" where
  "includes_str [] t = (t = [])"
| "includes_str (c # cs) t = (prefix t (c # cs) \<or> includes_str cs t)"

fun join :: "string \<Rightarrow> string list \<Rightarrow> string" where
  "join sep [] = []"
| "join sep [x] = x"
| "join sep (x # y # ys) = x @ sep @ join sep (y # ys)"

definition truthy :: "string option \<Rightarrow> bool" where
  "truthy s = (case s of None \<Rightarrow> False | Some t \<Rightarrow> t \<noteq> [])"

section \<open>Spreadsheet inspector (ExcelProcessor)\<close>

text \<open>
  The workbook is what \<open>XLSX.readFile\<close> returns: the sheet names in order and the
  sheets by name. A worksheet carries its decoded \<open>!ref\<close> range (start row, start
  column, end row, end column; absent means \<open>A1\<close>), its cells by (row, column), and
  the number of records \<open>XLSX.utils.sheet_to_json\<close> makes of it. The scores of the
  inspector are sums of small whole numbers and are kept as integers; they become
  binary64 values (\<open>of_integer\<close>) where the controller computes with them.
\<close>

record cell =
  cell_f :: "string option"

record worksheet =
  ref :: "(nat \<times> nat \<times> nat \<times> nat) option"
  cells :: "nat \<times> nat \<Rightarrow> cell option"
  json_rows :: nat

record workbook =
  SheetNames :: "string list"
  Sheets :: "string \<Rightarrow> worksheet option"

record ExpectedTemplate =
  expectedSheets :: "string list option"

record ExcelEvaluationResult =
  formulaAccuracy :: int
  structureScore :: int
  bestPracticesScore :: int
  formulasFound :: "string list"
  expectedFormulas :: "string list"
  sheetStructure :: "nat \<times> string list"
  namedRanges :: "string list"
  issues :: "string list"
  detailRecommendations :: "string list"

record SalesScore =
  formulaScore :: int
  salesStructureScore :: int
  salesIssues :: "string list"

datatype error =
  SessionNotFound
  | EvaluateFailed
  | TypeError
  | AIFailure
  | UnknownTemplate

definition cellFormula :: "worksheet \<Rightarrow> nat \<Rightarrow> nat \<Rightarrow> string list" where
  "cellFormula ws row col =
     (case cells ws (row, col) of
        None \<Rightarrow> []
      | Some c \<Rightarrow> (if truthy (cell_f c) then [the (cell_f c)] else []))"

definition extractFormulas :: "worksheet \<Rightarrow> string list" where
  "extractFormulas ws =
     (case (case ref ws of None \<Rightarrow> (0, 0, 0, 0) | Some r \<Rightarrow> r) of
        (sr, sc, er, ec) \<Rightarrow>
          concat (map (\<lambda>row. concat (map (\<lambda>col. cellFormula ws row col) [sc..<Suc ec]))
                      [sr..<Suc er]))"

definition hasKeyword :: "string \<Rightarrow> string list \<Rightarrow> bool" where
  "hasKeyword k formulas = list_ex (\<lambda>fm. includes_str (toUpperCase fm) k) formulas"

definition evaluateSalesAnalysis :: "worksheet \<Rightarrow> SalesScore" where
  "evaluateSalesAnalysis ws =
     (let formulas = extractFormulas ws;
          hasXLOOKUP = hasKeyword ''XLOOKUP'' formulas;
          hasSUMIFS = hasKeyword ''SUMIFS'' formulas;
          hasINDEX = hasKeyword ''INDEX'' formulas;
          hasMATCH = hasKeyword ''MATCH'' formulas;
          r0 = \<lparr>formulaScore = 60, salesStructureScore = 60, salesIssues = []\<rparr>;
          r1 = (if hasXLOOKUP \<or> (hasINDEX \<and> hasMATCH)
                then r0\<lparr>formulaScore := formulaScore r0 + 15\<rparr>
                else r0\<lparr>salesIssues := salesIssues r0 @
                        [''Missing advanced lookup formulas (XLOOKUP or INDEX/MATCH)'']\<rparr>);
          r2 = (if hasSUMIFS
                then r1\<lparr>formulaScore := formulaScore r1 + 15\<rparr>
                else r1\<lparr>salesIssues := salesIssues r1 @
                        [''Missing SUMIFS for conditional aggregation'']\<rparr>)
      in if 0 < json_rows ws
         then r2\<lparr>salesStructureScore := salesStructureScore r2 + 20\<rparr>
         else r2)"

text \<open>
  \<open>evaluateBestPractices\<close>; reading a sheet that \<open>Sheets\<close> does not hold raises a
  \<open>TypeError\<close> inside \<open>extractFormulas\<close>, the value \<open>None\<close> here.
\<close>

definition complexFormula :: "string \<Rightarrow> bool" where
  "complexFormula fm = (20 < length fm \<or> includes_str fm ''IF('')"

definition evaluateBestPractices :: "workbook \<Rightarrow> int option" where
  "evaluateBestPractices wb =
     (let sheetNames = SheetNames wb;
          score0 = 50;
          hasDescriptiveNames =
            list_all (\<lambda>name. 2 < length name \<and> \<not> includes_str name ''Sheet'') sheetNames;
          score1 = (if hasDescriptiveNames then score0 + 20 else score0);
          score2 = (if 1 < length sheetNames then score1 + 15 else score1)
      in if list_ex (\<lambda>name. Sheets wb name = None) sheetNames then None
         else
           let hasComplexFormulas =
                 list_ex (\<lambda>name. list_ex complexFormula (extractFormulas (the (Sheets wb name))))
                   sheetNames;
               score3 = (if hasComplexFormulas then score2 + 15 else score2)
           in Some (min 100 score3))"

text \<open>The loop of \<open>evaluateExcelFile\<close> over the sheet names.\<close>

fun analyzeSheets ::
  "workbook \<Rightarrow> string option \<Rightarrow> string list \<Rightarrow> ExcelEvaluationResult
     \<Rightarrow> ExcelEvaluationResult option" where
  "analyzeSheets wb taskType [] ev = Some ev"
| "analyzeSheets wb taskType (sheetName # rest) ev =
     (case Sheets wb sheetName of
        None \<Rightarrow> None
      | Some ws \<Rightarrow>
          let ev1 = ev\<lparr>formulasFound := formulasFound ev @ extractFormulas ws\<rparr>;
              ev2 = (if taskType = Some ''sales_analysis''
                     then let salesScore = evaluateSalesAnalysis ws
                          in ev1\<lparr>formulaAccuracy := formulaAccuracy ev1 + formulaScore salesScore,
                                 structureScore := structureScore ev1 + salesStructureScore salesScore,
                                 issues := issues ev1 @ salesIssues salesScore\<rparr>
                     else ev1)
          in analyzeSheets wb taskType rest ev2)"

definition initialEvaluation :: "workbook \<Rightarrow> ExcelEvaluationResult" where
  "initialEvaluation wb =
     \<lparr>formulaAccuracy = 0, structureScore = 0, bestPracticesScore = 0,
      formulasFound = [], expectedFormulas = [],
      sheetStructure = (length (SheetNames wb), SheetNames wb),
      namedRanges = [], issues = [], detailRecommendations = []\<rparr>"

definition clamp100 :: "int \<Rightarrow> int" where
  "clamp100 x = max 0 (min 100 x)"

text \<open>
  \<open>evaluateExcelFile\<close>. The first argument is \<open>XLSX.readFile\<close>, \<open>None\<close> where it
  throws; every exception of the body is caught and thrown again as one error.
\<close>

definition evaluateExcelFile ::
  "(string \<Rightarrow> workbook option) \<Rightarrow> string \<Rightarrow> ExpectedTemplate \<Rightarrow> string option
     \<Rightarrow> error + ExcelEvaluationResult" where
  "evaluateExcelFile readFile filePath expectedTemplate taskType =
     (case readFile filePath of
        None \<Rightarrow> Inl EvaluateFailed
      | Some wb \<Rightarrow>
          let sheetNames = SheetNames wb;
              ev0 = initialEvaluation wb;
              expected = (case expectedSheets expectedTemplate of None \<Rightarrow> [] | Some l \<Rightarrow> l);
              hasRequiredSheets = list_all (\<lambda>sheet. sheet \<in> set sheetNames) expected;
              ev1 = (if \<not> hasRequiredSheets
                     then ev0\<lparr>issues := issues ev0 @ [''Missing required sheets''],
                              structureScore := structureScore ev0 - 20\<rparr>
                     else ev0)
          in case analyzeSheets wb taskType sheetNames ev1 of
               None \<Rightarrow> Inl EvaluateFailed
             | Some ev2 \<Rightarrow>
                 (case evaluateBestPractices wb of
                    None \<Rightarrow> Inl EvaluateFailed
                  | Some bp \<Rightarrow>
                      Inr (ev2\<lparr>formulaAccuracy := clamp100 (formulaAccuracy ev2),
                               structureScore := clamp100 (structureScore ev2),
                               bestPracticesScore := clamp100 bp\<rparr>)))"

section \<open>Data model (shared/schema.ts)\<close>

text \<open>
  Row identifiers, generated by the database, are drawn from a counter. A decimal column
  holds the text of a number; it is modelled by the number that \<open>Number\<close> reads back
  from that text (\<open>NaN\<close> for a text that is no number), \<open>None\<close> being SQL
  \<open>NULL\<close>. \<open>Number(String(x))\<close> is \<open>x\<close> for every number, so writing
  \<open>x.toString()\<close> into such a column is storing \<open>x\<close>. The precision and scale
  of the columns and the timestamps are left out.
\<close>

datatype category = conceptual | practical | explanation | behavioral

datatype status = in_progress | completed | abandoned

datatype sender = ai | user

datatype messageType = mt_text | mt_file_upload | mt_template_download | mt_task

datatype metadata =
  FilePathMeta string
  | TemplateMeta string "nat option"
  | CompleteMeta jsnum

record InterviewSession =
  session_id :: nat
  userId :: string
  status :: status
  currentQuestionIndex :: int
  totalQuestions :: int
  completedAtSet :: bool
  overallScore :: "jsnum option"
  practicalScore :: "jsnum option"
  conceptualScore :: "jsnum option"
  explanationScore :: "jsnum option"
  behavioralScore :: "jsnum option"
  strengths :: "string list option"
  improvements :: "string list option"
  recommendations :: "string list option"

record ChatMessage =
  sessionId :: nat
  sender :: sender
  content :: string
  messageType :: messageType
  metadata :: "metadata option"

record ConceptualEvaluation =
  ce_score :: jsnum
  reasoning :: string
  ce_strengths :: "string list"
  ce_improvements :: "string list"

record ExplanationEvaluation =
  ee_score :: jsnum
  clarity :: jsnum
  accuracy :: jsnum
  completeness :: jsnum
  feedback :: string

record FinalReport =
  fr_strengths :: "string list"
  fr_improvements :: "string list"
  fr_recommendations :: "string list"

datatype aiEvaluation =
  ConceptualEval ConceptualEvaluation
  | ExplanationEval ExplanationEvaluation
  | PracticalEval ExcelEvaluationResult

record InterviewQuestion =
  q_id :: nat
  q_sessionId :: nat
  questionIndex :: int
  q_category :: category
  q_question :: string
  q_expectedAnswer :: "string option"
  userAnswer :: string
  fileUploaded :: bool
  filePath :: "string option"
  score :: "jsnum option"
  aiEvaluation :: "aiEvaluation option"
  isCompleted :: bool

record ExcelEvaluation =
  questionId :: "nat option"
  ev_filePath :: string
  ev_formulaAccuracy :: jsnum
  ev_structureScore :: jsnum
  ev_bestPracticesScore :: jsnum
  evaluationDetails :: ExcelEvaluationResult

section \<open>Persistence gateway (storage.ts)\<close>

record db =
  nextId :: nat
  sessions :: "nat \<Rightarrow> InterviewSession option"
  chatMessages :: "ChatMessage list"
  interviewQuestions :: "InterviewQuestion list"
  excelEvaluations :: "ExcelEvaluation list"

definition emptyDb :: db where
  "emptyDb = \<lparr>nextId = 0, sessions = (\<lambda>_. None), chatMessages = [],
              interviewQuestions = [], excelEvaluations = []\<rparr>"

definition createInterviewSession :: "string \<Rightarrow> status \<Rightarrow> int \<Rightarrow> int \<Rightarrow> db \<Rightarrow> InterviewSession \<times> db" where
  "createInterviewSession uid st idx tq d =
     (let newSession = \<lparr>session_id = nextId d, userId = uid, status = st,
                          currentQuestionIndex = idx, totalQuestions = tq,
                          completedAtSet = False,
                          overallScore = None, practicalScore = None, conceptualScore = None,
                          explanationScore = None, behavioralScore = None,
                          strengths = None, improvements = None, recommendations = None\<rparr>
      in (newSession, d\<lparr>nextId := Suc (nextId d),
                          sessions := (sessions d)(nextId d := Some newSession)\<rparr>))"

definition getInterviewSession :: "nat \<Rightarrow> db \<Rightarrow> InterviewSession option" where
  "getInterviewSession i d = sessions d i"

definition updateInterviewSession ::
  "nat \<Rightarrow> (InterviewSession \<Rightarrow> InterviewSession) \<Rightarrow> db \<Rightarrow> InterviewSession option \<times> db" where
  "updateInterviewSession i updates d =
     (case sessions d i of
        None \<Rightarrow> (None, d)
      | Some s \<Rightarrow> (Some (updates s), d\<lparr>sessions := (sessions d)(i := Some (updates s))\<rparr>))"

definition addChatMessage :: "ChatMessage \<Rightarrow> db \<Rightarrow> db" where
  "addChatMessage m d = d\<lparr>chatMessages := chatMessages d @ [m]\<rparr>"

definition getSessionMessages :: "nat \<Rightarrow> db \<Rightarrow> ChatMessage list" where
  "getSessionMessages i d = filter (\<lambda>m. sessionId m = i) (chatMessages d)"

definition addInterviewQuestion :: "InterviewQuestion \<Rightarrow> db \<Rightarrow> db" where
  "addInterviewQuestion q d =
     d\<lparr>nextId := Suc (nextId d),
       interviewQuestions := interviewQuestions d @ [q\<lparr>q_id := nextId d\<rparr>]\<rparr>"

definition getSessionQuestions :: "nat \<Rightarrow> db \<Rightarrow> InterviewQuestion list" where
  "getSessionQuestions i d =
     sort_key questionIndex (filter (\<lambda>q. q_sessionId q = i) (interviewQuestions d))"

definition addExcelEvaluation :: "ExcelEvaluation \<Rightarrow> db \<Rightarrow> db" where
  "addExcelEvaluation e d = d\<lparr>excelEvaluations := excelEvaluations d @ [e]\<rparr>"

section \<open>Interview flow controller (interviewService.ts)\<close>

record InterviewQuestionTemplate =
  category :: category
  question :: string
  expectedAnswer :: "string option"
  taskType :: "string option"
  timeLimit :: "nat option"

definition QUESTION_TEMPLATES :: "InterviewQuestionTemplate list" where
  "QUESTION_TEMPLATES =
    [\<lparr>category = conceptual,
      question = ''What are the key differences between VLOOKUP and XLOOKUP? When would you choose one over the other?'',
      expectedAnswer = Some ''XLOOKUP is more flexible, can search left-to-right and right-to-left, returns arrays, has better error handling, and supports approximate and exact matches more intuitively than VLOOKUP.'',
      taskType = None, timeLimit = None\<rparr>,
     \<lparr>category = conceptual,
      question = ''Explain how pivot tables work and when you would use them versus regular formulas for data analysis.'',
      expectedAnswer = Some ''Pivot tables summarize large datasets by grouping and aggregating data dynamically. Use for exploratory analysis, cross-tabulation, and when data structure changes frequently.'',
      taskType = None, timeLimit = None\<rparr>,
     \<lparr>category = practical,
      question = ''Complete the data cleanup task. Clean and standardize the messy customer data provided.'',
      expectedAnswer = None,
      taskType = Some ''data_cleanup'', timeLimit = Some 8\<rparr>,
     \<lparr>category = practical,
      question = ''Create a sales analysis dashboard with monthly summaries, top products by region, and KPI tracking.'',
      expectedAnswer = None,
      taskType = Some ''sales_analysis'', timeLimit = Some 10\<rparr>,
     \<lparr>category = explanation,
      question = ''Explain your approach to the sales analysis task. What formulas did you use and why?'',
      expectedAnswer = None, taskType = None, timeLimit = None\<rparr>,
     \<lparr>category = conceptual,
      question = ''How would you optimize Excel performance when working with large datasets (100k+ rows)?'',
      expectedAnswer = Some ''Use efficient formulas (avoid volatile functions), limit array formulas, use tables instead of ranges, minimize cross-sheet references, consider Power Query for data transformation.'',
      taskType = None, timeLimit = None\<rparr>,
     \<lparr>category = behavioral,
      question = ''Describe a time when you encountered a #REF! error in Excel. How did you troubleshoot and resolve it?'',
      expectedAnswer = None, taskType = None, timeLimit = None\<rparr>,
     \<lparr>category = conceptual,
      question = ''What are dynamic arrays in Excel and how do they differ from traditional array formulas?'',
      expectedAnswer = Some ''Dynamic arrays automatically spill results to adjacent cells, resize automatically, and use the @ operator. They're simpler than Ctrl+Shift+Enter array formulas.'',
      taskType = None, timeLimit = None\<rparr>]"

text \<open>
  \<open>QUESTION_TEMPLATES[i]\<close>: the entry, or \<open>undefined\<close> (here \<open>None\<close>) outside the
  array. Reading a property of \<open>undefined\<close> raises a \<open>TypeError\<close>.
\<close>

definition templateAt :: "int \<Rightarrow> InterviewQuestionTemplate option" where
  "templateAt i =
     (if 0 \<le> i \<and> i < int (length QUESTION_TEMPLATES) then Some (QUESTION_TEMPLATES ! nat i)
      else None)"

text \<open>
  What the controller calls outside itself: the spreadsheet reader, the three calls of
  the AI client (\<open>None\<close> where the call throws), and the digits of a number outside the
  range that \<open>numberToString\<close> spells out.
\<close>

record env =
  readFile :: "string \<Rightarrow> workbook option"
  evaluateConceptualAnswer :: "string \<Rightarrow> string \<Rightarrow> string option \<Rightarrow> ConceptualEvaluation option"
  evaluateExplanation :: "string \<Rightarrow> string \<Rightarrow> ExplanationEvaluation option"
  generateFinalReport ::
    "jsnum \<Rightarrow> jsnum \<Rightarrow> jsnum \<Rightarrow> jsnum \<Rightarrow> jsnum \<Rightarrow> InterviewQuestion list \<Rightarrow> FinalReport option"
  otherDigits :: "rat \<Rightarrow> string"

fun digits :: "nat \<Rightarrow> string" where
  "digits n = (if n < 10 then [char_of (48 + n)] else digits (n div 10) @ [char_of (48 + n mod 10)])"

declare digits.simps [simp del]

definition numberToString :: "env \<Rightarrow> jsnum \<Rightarrow> string" where
  "numberToString e x =
     (case x of
        NaN \<Rightarrow> ''NaN''
      | PosInf \<Rightarrow> ''Infinity''
      | NegInf \<Rightarrow> ''-Infinity''
      | Num r \<Rightarrow>
          if r = of_int \<lfloor>r\<rfloor> \<and> \<bar>r\<bar> < 10 ^ 21
          then (if r < 0 then ''-'' else []) @ digits (nat \<bar>\<lfloor>r\<rfloor>\<bar>)
          else otherDigits e r)"

definition welcomeMessage :: string where
  "welcomeMessage =
     ''Welcome to your Excel skills assessment! I'm your AI interviewer, and I'll be guiding you through ''
     @ digits (length QUESTION_TEMPLATES)
     @ '' questions covering conceptual knowledge, practical tasks, and explanations.\<newline>\<newline>''
     @ ''This interview will take approximately 45 minutes and will cover:\<newline>''
     @ [CHR 0xE2, CHR 0x80, CHR 0xA2] @ '' Conceptual Excel knowledge (25%)\<newline>''
     @ [CHR 0xE2, CHR 0x80, CHR 0xA2] @ '' Practical Excel tasks (50%)  \<newline>''
     @ [CHR 0xE2, CHR 0x80, CHR 0xA2] @ '' Explanations and best practices (15%)\<newline>''
     @ [CHR 0xE2, CHR 0x80, CHR 0xA2] @ '' Behavioral and problem-solving (10%)\<newline>\<newline>''
     @ ''Let's begin with our first question. Are you ready to start?''"

definition startInterview :: "string \<Rightarrow> db \<Rightarrow> InterviewSession \<times> db" where
  "startInterview uid d =
     (case createInterviewSession uid in_progress (- 1) (int (length QUESTION_TEMPLATES)) d of
        (session, d1) \<Rightarrow>
          (session,
           addChatMessage \<lparr>sessionId = session_id session, sender = ai,
                           content = welcomeMessage, messageType = mt_text,
                           metadata = None\<rparr> d1))"

definition scoreValue :: "InterviewQuestion \<Rightarrow> jsnum" where
  "scoreValue q = or_zero (case score q of None \<Rightarrow> Num 0 | Some x \<Rightarrow> x)"

definition calculateAverageScore :: "InterviewQuestion list \<Rightarrow> jsnum" where
  "calculateAverageScore questions =
     (if length questions = 0 then Num 0
      else let total = foldl (\<lambda>sum q. js_add sum (scoreValue q)) (Num 0) questions
           in Math_round (js_div total (of_integer (int (length questions)))))"

definition getCurrentQuestionIndex :: "nat \<Rightarrow> db \<Rightarrow> int" where
  "getCurrentQuestionIndex i d =
     (case getInterviewSession i d of None \<Rightarrow> 0 | Some s \<Rightarrow> currentQuestionIndex s)"

definition getLatestQuestionId :: "nat \<Rightarrow> db \<Rightarrow> nat option" where
  "getLatestQuestionId i d =
     (let questions = getSessionQuestions i d
      in if questions = [] then None else Some (q_id (last questions)))"

text \<open>
  \<open>evaluatePracticalTask\<close>; \<open>expectedTemplateOf\<close> is its local constant
  \<open>expectedTemplate\<close>. The row handed to \<open>addInterviewQuestion\<close> has no identifier
  yet (\<open>q_id\<close> is set by the insertion).
\<close>

definition expectedTemplateOf :: "InterviewQuestionTemplate \<Rightarrow> ExpectedTemplate" where
  "expectedTemplateOf q =
     \<lparr>expectedSheets = Some (if taskType q = Some ''sales_analysis''
                              then [''Monthly_Summary'', ''Top_Products'', ''KPI_Dashboard'']
                              else [''Clean_Data''])\<rparr>"

definition evaluatePracticalTask ::
  "env \<Rightarrow> nat \<Rightarrow> InterviewQuestionTemplate \<Rightarrow> string \<Rightarrow> string \<Rightarrow> db
     \<Rightarrow> (error + (string \<times> jsnum)) \<times> db" where
  "evaluatePracticalTask e sid q fp userExplanation d =
     (let expectedTemplate = expectedTemplateOf q
      in case evaluateExcelFile (readFile e) fp expectedTemplate (taskType q) of
           Inl err \<Rightarrow> (Inl err, d)
         | Inr evaluation \<Rightarrow>
             let overall =
                   Math_round
                     (js_add
                        (js_add (js_mul (of_integer (formulaAccuracy evaluation)) (lit (5 / 10)))
                                (js_mul (of_integer (structureScore evaluation)) (lit (3 / 10))))
                        (js_mul (of_integer (bestPracticesScore evaluation)) (lit (2 / 10))));
                 d1 = addInterviewQuestion
                        \<lparr>q_id = 0, q_sessionId = sid,
                         questionIndex = getCurrentQuestionIndex sid d,
                         q_category = category q, q_question = question q,
                         q_expectedAnswer = None, userAnswer = userExplanation,
                         fileUploaded = True, filePath = Some fp,
                         score = Some overall,
                         aiEvaluation = Some (PracticalEval evaluation),
                         isCompleted = True\<rparr> d;
                 d2 = addExcelEvaluation
                        \<lparr>questionId = getLatestQuestionId sid d1, ev_filePath = fp,
                         ev_formulaAccuracy = of_integer (formulaAccuracy evaluation),
                         ev_structureScore = of_integer (structureScore evaluation),
                         ev_bestPracticesScore = of_integer (bestPracticesScore evaluation),
                         evaluationDetails = evaluation\<rparr> d1;
                 feedback0 =
                   (if js_ge overall (Num 80) then ''Excellent work on this practical task!''
                    else if js_ge overall (Num 60) then ''Good job on this task.''
                    else ''You completed the task, but there are areas for improvement.'');
                 feedback1 =
                   (if 0 < length (issues evaluation)
                    then feedback0 @ '' Key areas to note: '' @ join '', '' (issues evaluation) @ ''.''
                    else feedback0)
             in (Inr (feedback1, overall), d2))"

definition completeInterview :: "env \<Rightarrow> nat \<Rightarrow> db \<Rightarrow> (error + unit) \<times> db" where
  "completeInterview e sid d =
     (let questions = getSessionQuestions sid d;
          practicalQuestions = filter (\<lambda>q. q_category q = practical) questions;
          conceptualQuestions = filter (\<lambda>q. q_category q = conceptual) questions;
          explanationQuestions = filter (\<lambda>q. q_category q = explanation) questions;
          behavioralQuestions = filter (\<lambda>q. q_category q = behavioral) questions;
          pScore = calculateAverageScore practicalQuestions;
          cScore = calculateAverageScore conceptualQuestions;
          eScore = calculateAverageScore explanationQuestions;
          bScore = calculateAverageScore behavioralQuestions;
          overall =
            Math_round
              (js_add
                 (js_add
                    (js_add (js_mul pScore (lit (5 / 10))) (js_mul cScore (lit (25 / 100))))
                    (js_mul eScore (lit (15 / 100))))
                 (js_mul bScore (lit (1 / 10))))
      in case generateFinalReport e overall pScore cScore eScore bScore questions of
           None \<Rightarrow> (Inl AIFailure, d)
         | Some report \<Rightarrow>
             let d1 = snd (updateInterviewSession sid
                             (\<lambda>s. s\<lparr>status := completed, completedAtSet := True,
                                     overallScore := Some overall,
                                     practicalScore := Some pScore,
                                     conceptualScore := Some cScore,
                                     explanationScore := Some eScore,
                                     behavioralScore := Some bScore,
                                     strengths := Some (fr_strengths report),
                                     improvements := Some (fr_improvements report),
                                     recommendations := Some (fr_recommendations report)\<rparr>) d);
                 d2 = addChatMessage
                        \<lparr>sessionId = sid, sender = ai,
                         content = ''Interview completed! Your overall score is ''
                                   @ numberToString e overall
                                   @ ''%. Click here to view your detailed results and recommendations.'',
                         messageType = mt_text,
                         metadata = Some (CompleteMeta overall)\<rparr> d1
             in (Inr (), d2))"

text \<open>
  \<open>processUserMessage\<close> is given in three parts. \<open>answerStep\<close> is the chain of
  branches on the category of the current question (lines 143 to 222): it yields the
  reply so far and the next index. \<open>askNext\<close> is the rest of the turn (lines 224 to
  276).
\<close>

definition questionRow ::
  "nat \<Rightarrow> InterviewSession \<Rightarrow> InterviewQuestionTemplate \<Rightarrow> string \<Rightarrow> InterviewQuestion" where
  "questionRow sid session currentQuestion userMessage =
     \<lparr>q_id = 0, q_sessionId = sid, questionIndex = currentQuestionIndex session,
      q_category = category currentQuestion, q_question = question currentQuestion,
      q_expectedAnswer = None, userAnswer = userMessage,
      fileUploaded = False, filePath = None, score = None, aiEvaluation = None,
      isCompleted = True\<rparr>"

definition answerStep ::
  "env \<Rightarrow> nat \<Rightarrow> InterviewSession \<Rightarrow> InterviewQuestionTemplate \<Rightarrow> string \<Rightarrow> string option \<Rightarrow> db
     \<Rightarrow> (error + (string \<times> int)) \<times> db" where
  "answerStep e sid session currentQuestion userMessage fp d =
     (let idx = currentQuestionIndex session
      in if category currentQuestion = practical \<and> truthy fp then
           (case evaluatePracticalTask e sid currentQuestion (the fp) userMessage d of
              (Inl err, d1) \<Rightarrow> (Inl err, d1)
            | (Inr evaluation, d1) \<Rightarrow>
                (Inr (''Great! I've received your Excel file. '' @ fst evaluation, idx + 1), d1))
         else if category currentQuestion = conceptual then
           (case evaluateConceptualAnswer e (question currentQuestion) userMessage
                   (expectedAnswer currentQuestion) of
              None \<Rightarrow> (Inl AIFailure, d)
            | Some evaluation \<Rightarrow>
                let d1 = addInterviewQuestion
                           ((questionRow sid session currentQuestion userMessage)
                              \<lparr>q_expectedAnswer := expectedAnswer currentQuestion,
                               score := Some (ce_score evaluation),
                               aiEvaluation := Some (ConceptualEval evaluation)\<rparr>) d;
                    aiResponse =
                      (if js_ge (ce_score evaluation) (Num 70)
                       then ''Excellent answer! '' @ reasoning evaluation
                       else if js_ge (ce_score evaluation) (Num 50)
                       then ''Good understanding shown. '' @ reasoning evaluation
                       else ''I can see you have some knowledge in this area. ''
                            @ reasoning evaluation)
                in (Inr (aiResponse, idx + 1), d1))
         else if category currentQuestion = explanation then
           (case evaluateExplanation e ''Sales analysis task explanation'' userMessage of
              None \<Rightarrow> (Inl AIFailure, d)
            | Some evaluation \<Rightarrow>
                let d1 = addInterviewQuestion
                           ((questionRow sid session currentQuestion userMessage)
                              \<lparr>score := Some (ee_score evaluation),
                               aiEvaluation := Some (ExplanationEval evaluation)\<rparr>) d
                in (Inr (''Thank you for the explanation. '' @ feedback evaluation, idx + 1), d1))
         else if category currentQuestion = behavioral then
           (let d1 = addInterviewQuestion
                       ((questionRow sid session currentQuestion userMessage)
                          \<lparr>score := Some (Num 80)\<rparr>) d
            in (Inr (''Thank you for sharing that experience. Problem-solving skills are crucial when working with Excel.'',
                     idx + 1), d1))
         else (Inr ([], idx), d))"

definition templateDownloadMessage :: "nat \<Rightarrow> InterviewQuestionTemplate \<Rightarrow> ChatMessage" where
  "templateDownloadMessage sid nextQuestion =
     \<lparr>sessionId = sid, sender = ai, content = ''Template file ready for download'',
      messageType = mt_template_download,
      metadata = Some (TemplateMeta (the (taskType nextQuestion)) (timeLimit nextQuestion))\<rparr>"

definition askNext ::
  "env \<Rightarrow> nat \<Rightarrow> string \<Rightarrow> int \<Rightarrow> db
     \<Rightarrow> (error + (InterviewSession option \<times> ChatMessage list)) \<times> db" where
  "askNext e sid aiResponse0 nextQuestionIndex d =
     (case (if int (length QUESTION_TEMPLATES) \<le> nextQuestionIndex then
              (case completeInterview e sid d of
                 (Inl err, d1) \<Rightarrow> (Inl err, d1)
               | (Inr u, d1) \<Rightarrow>
                   (Inr (False, aiResponse0
                           @ '' That completes our interview! Let me calculate your final results.''),
                    d1))
            else
              (case templateAt nextQuestionIndex of
                 None \<Rightarrow> (Inl TypeError, d)
               | Some nextQuestion \<Rightarrow>
                   let r1 = aiResponse0 @ ''\<newline>\<newline>Let's move to our next question:\<newline>\<newline>''
                            @ question nextQuestion;
                       r2 = (if category nextQuestion = practical \<and> truthy (taskType nextQuestion)
                             then r1 @ ''\<newline>\<newline>I'll provide you with a template file to work with. Please download it, complete the task, and upload your solution.''
                             else r1)
                   in (Inr (True, r2), d))) of
        (Inl err, d1) \<Rightarrow> (Inl err, d1)
      | (Inr (shouldContinue, aiResponse), d1) \<Rightarrow>
          (case updateInterviewSession sid
                  (\<lambda>s. s\<lparr>currentQuestionIndex := nextQuestionIndex,
                          status := (if shouldContinue then in_progress else completed)\<rparr>) d1 of
             (updatedSession, d2) \<Rightarrow>
               let d3 = addChatMessage
                          \<lparr>sessionId = sid, sender = ai, content = aiResponse,
                           messageType = mt_text, metadata = None\<rparr> d2;
                   d4 = (if shouldContinue \<and> nextQuestionIndex < int (length QUESTION_TEMPLATES)
                         then (case templateAt nextQuestionIndex of
                                 None \<Rightarrow> d3
                               | Some nextQuestion \<Rightarrow>
                                   if category nextQuestion = practical
                                      \<and> truthy (taskType nextQuestion)
                                   then addChatMessage (templateDownloadMessage sid nextQuestion) d3
                                   else d3)
                         else d3)
               in (Inr (updatedSession, getSessionMessages sid d4), d4)))"

definition userChatMessage :: "nat \<Rightarrow> string \<Rightarrow> string option \<Rightarrow> ChatMessage" where
  "userChatMessage sid userMessage fp =
     \<lparr>sessionId = sid, sender = user, content = userMessage,
      messageType = (if truthy fp then mt_file_upload else mt_text),
      metadata = (if truthy fp then Some (FilePathMeta (the fp)) else None)\<rparr>"

definition firstQuestionMessage :: "nat \<Rightarrow> ChatMessage" where
  "firstQuestionMessage sid =
     \<lparr>sessionId = sid, sender = ai,
      content = ''Great! Let's begin with our first question:\<newline>\<newline>''
                @ question (QUESTION_TEMPLATES ! 0),
      messageType = mt_text, metadata = None\<rparr>"

definition processUserMessage ::
  "env \<Rightarrow> nat \<Rightarrow> string \<Rightarrow> string option \<Rightarrow> db
     \<Rightarrow> (error + (InterviewSession option \<times> ChatMessage list)) \<times> db" where
  "processUserMessage e sid userMessage fp d =
     (case getInterviewSession sid d of
        None \<Rightarrow> (Inl SessionNotFound, d)
      | Some session \<Rightarrow>
          let d1 = addChatMessage (userChatMessage sid userMessage fp) d
          in if currentQuestionIndex session = - 1 then
               (case updateInterviewSession sid (\<lambda>s. s\<lparr>currentQuestionIndex := 0\<rparr>) d1 of
                  (updatedSession, d2) \<Rightarrow>
                    let d3 = addChatMessage (firstQuestionMessage sid) d2
                    in (Inr (updatedSession, getSessionMessages sid d3), d3))
             else
               (case templateAt (currentQuestionIndex session) of
                  None \<Rightarrow> (Inl TypeError, d1)
                | Some currentQuestion \<Rightarrow>
                    (case answerStep e sid session currentQuestion userMessage fp d1 of
                       (Inl err, d2) \<Rightarrow> (Inl err, d2)
                     | (Inr (aiResponse, nextQuestionIndex), d2) \<Rightarrow>
                         askNext e sid aiResponse nextQuestionIndex d2)))"

record Progress =
  currentQuestion :: int
  progressTotal :: int
  percentage :: jsnum


text \<open>The states of the database that the controller can bring about.\<close>

inductive reachable :: "db \<Rightarrow> bool" where
  reachable_empty: "reachable emptyDb"
| reachable_start: "reachable d \<Longrightarrow> reachable (snd (startInterview uid d))"
| reachable_turn: "reachable d \<Longrightarrow> reachable (snd (processUserMessage e sid msg fp d))"

section \<open>HTTP surface (registerRoutes, the variant without authentication)\<close>







section \<open>The statements of the specification\<close>

text \<open>
  The weighted scores and the category average as the specification words them, in the
  arithmetic of the program.
\<close>

definition spec_practical_overall :: "jsnum \<Rightarrow> jsnum \<Rightarrow> jsnum \<Rightarrow> jsnum" where
  "spec_practical_overall fa st bp =
     Math_round (js_add (js_add (js_mul fa (lit (5 / 10))) (js_mul st (lit (3 / 10))))
                        (js_mul bp (lit (2 / 10))))"

definition spec_overall :: "jsnum \<Rightarrow> jsnum \<Rightarrow> jsnum \<Rightarrow> jsnum \<Rightarrow> jsnum" where
  "spec_overall p c x b =
     Math_round (js_add (js_add (js_add (js_mul p (lit (5 / 10))) (js_mul c (lit (25 / 100))))
                                (js_mul x (lit (15 / 100))))
                        (js_mul b (lit (1 / 10))))"



definition categoryAverage :: "category \<Rightarrow> nat \<Rightarrow> db \<Rightarrow> jsnum" where
  "categoryAverage c sid d =
     calculateAverageScore (filter (\<lambda>q. q_category q = c) (getSessionQuestions sid d))"

text \<open>The two bonuses of the sales analysis, over a list of formula strings.\<close>

definition spec_lookup_bonus :: "string list \<Rightarrow> int" where
  "spec_lookup_bonus formulas =
     (if hasKeyword ''XLOOKUP'' formulas
         \<or> (hasKeyword ''INDEX'' formulas \<and> hasKeyword ''MATCH'' formulas)
      then 15 else 0)"

definition spec_sumifs_bonus :: "string list \<Rightarrow> int" where
  "spec_sumifs_bonus formulas = (if hasKeyword ''SUMIFS'' formulas then 15 else 0)"

definition collectedFormulas :: "workbook \<Rightarrow> string list" where
  "collectedFormulas wb =
     concat (map (\<lambda>n. extractFormulas (the (Sheets wb n))) (SheetNames wb))"

text \<open>A sequence of turns, each with what the outside world answers during it.\<close>

type_synonym turn = "env \<times> nat \<times> string \<times> string option"

fun runTurns :: "turn list \<Rightarrow> db \<Rightarrow> db" where
  "runTurns [] d = d"
| "runTurns ((e, sid, msg, fp) # ts) d = runTurns ts (snd (processUserMessage e sid msg fp d))"

definition sessionInv :: "InterviewSession \<Rightarrow> bool" where
  "sessionInv s =
     (totalQuestions s = int (length QUESTION_TEMPLATES)
      \<and> - 1 \<le> currentQuestionIndex s
      \<and> currentQuestionIndex s \<le> totalQuestions s
      \<and> status s = (if currentQuestionIndex s = totalQuestions s then completed
                     else in_progress))"

section \<open>Sample inputs\<close>

definition sheetX :: worksheet where
  "sheetX = \<lparr>ref = Some (0, 0, 0, 0),
             cells = (\<lambda>p. if p = (0, 0) then Some \<lparr>cell_f = Some ''xlookup(A1,B:B,C:C)''\<rparr>
                          else None),
             json_rows = 1\<rparr>"

definition bookOne :: workbook where
  "bookOne = \<lparr>SheetNames = [''Monthly_Summary''],
              Sheets = (\<lambda>n. if n = ''Monthly_Summary'' then Some sheetX else None)\<rparr>"


definition sheetWith :: "string \<Rightarrow> worksheet" where
  "sheetWith fm = \<lparr>ref = Some (0, 0, 0, 0),
                    cells = (\<lambda>p. if p = (0, 0) then Some \<lparr>cell_f = Some fm\<rparr> else None),
                    json_rows = 1\<rparr>"

definition bookSplit :: workbook where
  "bookSplit = \<lparr>SheetNames = [''Lookup_A'', ''Lookup_B''],
                Sheets = (\<lambda>n. if n = ''Lookup_A'' then Some (sheetWith ''INDEX(A:A,1)'')
                              else if n = ''Lookup_B'' then Some (sheetWith ''MATCH(1,A:A,0)'')
                              else None)\<rparr>"

definition bookTwo :: workbook where
  "bookTwo = \<lparr>SheetNames = [''Monthly_Summary'', ''Top_Products''],
              Sheets = (\<lambda>n. if n = ''Monthly_Summary'' \<or> n = ''Top_Products'' then Some sheetX
                            else None)\<rparr>"

definition bookTwoEvaluation :: ExcelEvaluationResult where
  "bookTwoEvaluation =
     \<lparr>formulaAccuracy = 100, structureScore = 100, bestPracticesScore = 85,
      formulasFound = [''xlookup(A1,B:B,C:C)'', ''xlookup(A1,B:B,C:C)''],
      expectedFormulas = [],
      sheetStructure = (2, [''Monthly_Summary'', ''Top_Products'']),
      namedRanges = [],
      issues = [''Missing required sheets'', ''Missing SUMIFS for conditional aggregation'',
                ''Missing SUMIFS for conditional aggregation''],
      detailRecommendations = []\<rparr>"

definition salesTemplate :: ExpectedTemplate where
  "salesTemplate = \<lparr>expectedSheets = Some [''Monthly_Summary'', ''Top_Products'', ''KPI_Dashboard'']\<rparr>"

definition stubEnv :: env where
  "stubEnv =
     \<lparr>readFile = (\<lambda>_. Some bookTwo),
      evaluateConceptualAnswer =
        (\<lambda>_ _ _. Some \<lparr>ce_score = Num 75, reasoning = ''Clear.'', ce_strengths = [],
                        ce_improvements = []\<rparr>),
      evaluateExplanation =
        (\<lambda>_ _. Some \<lparr>ee_score = Num 50, clarity = Num 50, accuracy = Num 50,
                      completeness = Num 50, feedback = ''Fine.''\<rparr>),
      generateFinalReport =
        (\<lambda>_ _ _ _ _ _. Some \<lparr>fr_strengths = [], fr_improvements = [], fr_recommendations = []\<rparr>),
      otherDigits = (\<lambda>_. [])\<rparr>"

definition scoredRow :: "category \<Rightarrow> rat \<Rightarrow> InterviewQuestion" where
  "scoredRow c x =
     \<lparr>q_id = 0, q_sessionId = 0, questionIndex = 0, q_category = c, q_question = [],
      q_expectedAnswer = None, userAnswer = [], fileUploaded = False, filePath = None,
      score = Some (Num x), aiEvaluation = None, isCompleted = True\<rparr>"

definition startedDb :: db where
  "startedDb = snd (startInterview ''demo-user'' emptyDb)"

definition startedSession :: InterviewSession where
  "startedSession = fst (startInterview ''demo-user'' emptyDb)"

definition scoredDb :: db where
  "scoredDb =
     startedDb\<lparr>interviewQuestions :=
                 [scoredRow practical 90, scoredRow conceptual 70,
                  scoredRow explanation 50, scoredRow behavioral 80]\<rparr>"

definition dbAt :: "int \<Rightarrow> db" where
  "dbAt i = startedDb\<lparr>sessions := (sessions startedDb)
                        (0 := Some (startedSession\<lparr>currentQuestionIndex := i\<rparr>))\<rparr>"


section \<open>Spreadsheet inspector: clamping and bonuses\<close>

lemma clamp100_bounds: "0 \<le> clamp100 x \<and> clamp100 x \<le> 100"
  by (simp add: clamp100_def)

lemma evaluateExcelFile_Inr:
  assumes "evaluateExcelFile rf fp tmpl tt = Inr ev"
  obtains wb ev2 bp where "rf fp = Some wb"
    and "analyzeSheets wb tt (SheetNames wb)
           (if list_all (\<lambda>sheet. sheet \<in> set (SheetNames wb))
                 (case expectedSheets tmpl of None \<Rightarrow> [] | Some l \<Rightarrow> l)
            then initialEvaluation wb
            else (initialEvaluation wb)
                   \<lparr>issues := issues (initialEvaluation wb) @ [''Missing required sheets''],
                    structureScore := structureScore (initialEvaluation wb) - 20\<rparr>) = Some ev2"
    and "evaluateBestPractices wb = Some bp"
    and "ev = ev2\<lparr>formulaAccuracy := clamp100 (formulaAccuracy ev2),
                   structureScore := clamp100 (structureScore ev2),
                   bestPracticesScore := clamp100 bp\<rparr>"
  using assms
  by (auto simp: evaluateExcelFile_def Let_def split: option.splits if_splits)

text \<open>
  Claim C7. Whatever the workbook, the three scores that \<open>evaluateExcelFile\<close> returns
  lie between 0 and 100.
\<close>

theorem inspector_scores_clamped:
  assumes "evaluateExcelFile rf fp tmpl tt = Inr ev"
  shows "0 \<le> formulaAccuracy ev \<and> formulaAccuracy ev \<le> 100
       \<and> 0 \<le> structureScore ev \<and> structureScore ev \<le> 100
       \<and> 0 \<le> bestPracticesScore ev \<and> bestPracticesScore ev \<le> 100"
  using assms by (elim evaluateExcelFile_Inr) (simp add: clamp100_bounds)

lemma sales_formulaScore:
  "formulaScore (evaluateSalesAnalysis ws) =
     60 + spec_lookup_bonus (extractFormulas ws) + spec_sumifs_bonus (extractFormulas ws)"
  by (simp add: evaluateSalesAnalysis_def Let_def spec_lookup_bonus_def spec_sumifs_bonus_def)






subsection \<open>The sample workbooks\<close>

lemma extract_sheetX: "extractFormulas sheetX = [''xlookup(A1,B:B,C:C)'']"
  by (simp add: extractFormulas_def sheetX_def cellFormula_def truthy_def)

lemma sales_sheetX:
  "evaluateSalesAnalysis sheetX =
     \<lparr>formulaScore = 75, salesStructureScore = 80,
      salesIssues = [''Missing SUMIFS for conditional aggregation'']\<rparr>"
proof -
  have "json_rows sheetX = 1" by (simp add: sheetX_def)
  then show ?thesis
    by (simp add: evaluateSalesAnalysis_def extract_sheetX hasKeyword_def toUpperCase_def
                  upperChar_def Let_def)
qed

lemma complex_sheetX: "\<not> list_ex complexFormula (extractFormulas sheetX)"
  by (simp add: extract_sheetX complexFormula_def)

lemma bookOne_sheets:
  "SheetNames bookOne = [''Monthly_Summary'']"
  "Sheets bookOne ''Monthly_Summary'' = Some sheetX"
  by (simp_all add: bookOne_def)

lemma bookTwo_sheets:
  "SheetNames bookTwo = [''Monthly_Summary'', ''Top_Products'']"
  "Sheets bookTwo ''Monthly_Summary'' = Some sheetX"
  "Sheets bookTwo ''Top_Products'' = Some sheetX"
  by (simp_all add: bookTwo_def)


lemma bp_bookTwo: "evaluateBestPractices bookTwo = Some 85"
  by (simp add: evaluateBestPractices_def bookTwo_sheets complex_sheetX Let_def)

lemma analyze_bookOne:
  "analyzeSheets bookOne (Some ''sales_analysis'') [''Monthly_Summary''] ev0 =
     Some (ev0\<lparr>formulasFound := formulasFound ev0 @ [''xlookup(A1,B:B,C:C)''],
               formulaAccuracy := formulaAccuracy ev0 + 75,
               structureScore := structureScore ev0 + 80,
               issues := issues ev0 @ [''Missing SUMIFS for conditional aggregation'']\<rparr>)"
  by (simp add: bookOne_sheets extract_sheetX sales_sheetX Let_def)

lemma analyze_bookTwo:
  "analyzeSheets bookTwo (Some ''sales_analysis'') [''Monthly_Summary'', ''Top_Products''] ev0 =
     Some (ev0\<lparr>formulasFound := formulasFound ev0 @ [''xlookup(A1,B:B,C:C)'', ''xlookup(A1,B:B,C:C)''],
               formulaAccuracy := formulaAccuracy ev0 + 150,
               structureScore := structureScore ev0 + 160,
               issues := issues ev0 @ [''Missing SUMIFS for conditional aggregation'',
                                       ''Missing SUMIFS for conditional aggregation'']\<rparr>)"
  by (simp add: bookTwo_sheets extract_sheetX sales_sheetX Let_def)


lemma evaluate_bookTwo:
  "evaluateExcelFile (\<lambda>_. Some bookTwo) fp salesTemplate (Some ''sales_analysis'')
     = Inr bookTwoEvaluation"
  by (simp add: evaluateExcelFile_def Let_def bookTwo_sheets extract_sheetX sales_sheetX
                bp_bookTwo initialEvaluation_def salesTemplate_def clamp100_def
                bookTwoEvaluation_def)

text \<open>
  In the second sample the sums before the clamp are 150 for the formulas and 140 for
  the structure; in a workbook without sheets the structure sum is -20.
\<close>

lemma sums_outside_range:
  "analyzeSheets bookTwo (Some ''sales_analysis'') (SheetNames bookTwo)
     ((initialEvaluation bookTwo)\<lparr>structureScore := - 20\<rparr>)
     = Some ((initialEvaluation bookTwo)
               \<lparr>structureScore := - 20,
                formulasFound := [''xlookup(A1,B:B,C:C)'', ''xlookup(A1,B:B,C:C)''],
                formulaAccuracy := 150, structureScore := 140,
                issues := [''Missing SUMIFS for conditional aggregation'',
                           ''Missing SUMIFS for conditional aggregation'']\<rparr>)"
  "structureScore (projr (evaluateExcelFile (\<lambda>_. Some \<lparr>SheetNames = [], Sheets = (\<lambda>_. None)\<rparr>)
                     fp salesTemplate (Some ''sales_analysis''))) = 0"
  by (simp_all add: bookTwo_sheets extract_sheetX sales_sheetX initialEvaluation_def
                    evaluateExcelFile_def evaluateBestPractices_def salesTemplate_def
                    clamp100_def Let_def)

text \<open>
  The loop looks for the keywords sheet by sheet. With INDEX on one sheet and MATCH on
  another, no sheet earns the lookup bonus and each records the missing lookup, while
  the collected formulas contain both; the formula accuracy returned is 100 either way.
\<close>

lemma extract_sheetWith: "fm \<noteq> [] \<Longrightarrow> extractFormulas (sheetWith fm) = [fm]"
  by (simp add: extractFormulas_def sheetWith_def cellFormula_def truthy_def)

lemma lookup_split_over_sheets:
  "formulaScore (evaluateSalesAnalysis (sheetWith ''INDEX(A:A,1)'')) = 60"
  "formulaScore (evaluateSalesAnalysis (sheetWith ''MATCH(1,A:A,0)'')) = 60"
  "spec_lookup_bonus (collectedFormulas bookSplit) = 15"
  "formulaAccuracy (projr (evaluateExcelFile (\<lambda>_. Some bookSplit) fp salesTemplate
                            (Some ''sales_analysis''))) = 100"
proof -
  have s: "Sheets bookSplit ''Lookup_A'' = Some (sheetWith ''INDEX(A:A,1)'')"
    "Sheets bookSplit ''Lookup_B'' = Some (sheetWith ''MATCH(1,A:A,0)'')"
    "SheetNames bookSplit = [''Lookup_A'', ''Lookup_B'']"
    by (simp_all add: bookSplit_def)
  have x: "extractFormulas (sheetWith ''INDEX(A:A,1)'') = [''INDEX(A:A,1)'']"
    "extractFormulas (sheetWith ''MATCH(1,A:A,0)'') = [''MATCH(1,A:A,0)'']"
    by (simp_all add: extract_sheetWith)
  show a: "formulaScore (evaluateSalesAnalysis (sheetWith ''INDEX(A:A,1)'')) = 60"
    by (simp add: sales_formulaScore x spec_lookup_bonus_def spec_sumifs_bonus_def
                  hasKeyword_def toUpperCase_def upperChar_def)
  show b: "formulaScore (evaluateSalesAnalysis (sheetWith ''MATCH(1,A:A,0)'')) = 60"
    by (simp add: sales_formulaScore x spec_lookup_bonus_def spec_sumifs_bonus_def
                  hasKeyword_def toUpperCase_def upperChar_def)
  show "spec_lookup_bonus (collectedFormulas bookSplit) = 15"
    by (simp add: collectedFormulas_def s x spec_lookup_bonus_def hasKeyword_def
                  toUpperCase_def upperChar_def)
  have "evaluateBestPractices bookSplit = Some 85"
    by (simp add: evaluateBestPractices_def s x complexFormula_def Let_def)
  then show "formulaAccuracy (projr (evaluateExcelFile (\<lambda>_. Some bookSplit) fp salesTemplate
                            (Some ''sales_analysis''))) = 100"
    by (simp add: evaluateExcelFile_def Let_def s a b initialEvaluation_def salesTemplate_def
                  clamp100_def)
qed

theorem inspector_scores_clamped_witness:
  "evaluateExcelFile (\<lambda>_. Some bookTwo) ''upload.xlsx'' salesTemplate (Some ''sales_analysis'')
     = Inr bookTwoEvaluation
   \<and> 0 \<le> formulaAccuracy bookTwoEvaluation \<and> formulaAccuracy bookTwoEvaluation \<le> 100
   \<and> 0 \<le> structureScore bookTwoEvaluation \<and> structureScore bookTwoEvaluation \<le> 100
   \<and> 0 \<le> bestPracticesScore bookTwoEvaluation \<and> bestPracticesScore bookTwoEvaluation \<le> 100"
  using inspector_scores_clamped [OF evaluate_bookTwo [of "''upload.xlsx''"]] evaluate_bookTwo
  by simp


section \<open>Weighted scores and category averages\<close>





lemma average_single:
  "calculateAverageScore [scoredRow practical 90] = Num 90"
  "calculateAverageScore [scoredRow conceptual 70] = Num 70"
  "calculateAverageScore [scoredRow explanation 50] = Num 50"
  "calculateAverageScore [scoredRow behavioral 80] = Num 80"
  by code_simp+

lemma overall_78: "spec_overall (Num 90) (Num 70) (Num 50) (Num 80) = Num 78"
  by code_simp

lemma practical_86: "spec_practical_overall (Num 100) (Num 80) (Num 60) = Num 86"
  by code_simp

lemma practical_97:
  "spec_practical_overall (of_integer 100) (of_integer 100) (of_integer 85) = Num 97"
  by code_simp

text \<open>
  The arithmetic is that of the program, not that of the rationals: with the averages
  0, 0, 36 and 1 the exact weighted sum is 5.5, the binary64 sum lies just below it, and
  the rounded score is 5.
\<close>

lemma binary64_rounding_is_visible:
  "spec_overall (Num 0) (Num 0) (Num 36) (Num 1) = Num 5"
  "\<lfloor>(0 * 5 / 10 + 0 * 25 / 100 + 36 * 15 / 100 + 1 * 1 / 10 :: rat) + 1 / 2\<rfloor> = 6"
  by code_simp+


text \<open>
  Claim C4. When the inspector returns an evaluation, the score of the practical task,
  as returned and as stored in the question row, is the rounded sum of formula accuracy
  times 0.5, structure times 0.3 and best practices times 0.2; for 100, 80 and 60 this
  is 86.
\<close>

theorem practical_task_overall_score:
  assumes "evaluateExcelFile (readFile e) fp (expectedTemplateOf q) (taskType q) = Inr ev"
  shows "(\<exists>fb. fst (evaluatePracticalTask e sid q fp msg d) =
               Inr (fb, spec_practical_overall (of_integer (formulaAccuracy ev))
                          (of_integer (structureScore ev))
                          (of_integer (bestPracticesScore ev))))
       \<and> score (last (interviewQuestions (snd (evaluatePracticalTask e sid q fp msg d)))) =
           Some (spec_practical_overall (of_integer (formulaAccuracy ev))
                   (of_integer (structureScore ev)) (of_integer (bestPracticesScore ev)))
       \<and> aiEvaluation (last (interviewQuestions (snd (evaluatePracticalTask e sid q fp msg d)))) =
           Some (PracticalEval ev)
       \<and> spec_practical_overall (Num 100) (Num 80) (Num 60) = Num 86"
proof -
  have "fst (evaluatePracticalTask e sid q fp msg d) =
          Inr (fst (projr (fst (evaluatePracticalTask e sid q fp msg d))),
               spec_practical_overall (of_integer (formulaAccuracy ev))
                 (of_integer (structureScore ev)) (of_integer (bestPracticesScore ev)))"
    using assms
    by (simp add: evaluatePracticalTask_def Let_def spec_practical_overall_def)
  moreover have
    "score (last (interviewQuestions (snd (evaluatePracticalTask e sid q fp msg d)))) =
       Some (spec_practical_overall (of_integer (formulaAccuracy ev))
               (of_integer (structureScore ev)) (of_integer (bestPracticesScore ev)))"
    "aiEvaluation (last (interviewQuestions (snd (evaluatePracticalTask e sid q fp msg d)))) =
       Some (PracticalEval ev)"
    using assms
    by (simp_all add: evaluatePracticalTask_def Let_def spec_practical_overall_def
                      addInterviewQuestion_def addExcelEvaluation_def)
  ultimately show ?thesis
    using practical_86 by blast
qed

lemma template3:
  "taskType (QUESTION_TEMPLATES ! 3) = Some ''sales_analysis''"
  "expectedTemplateOf (QUESTION_TEMPLATES ! 3) = salesTemplate"
  by (simp_all add: QUESTION_TEMPLATES_def expectedTemplateOf_def salesTemplate_def)

lemma evaluate_stub:
  "evaluateExcelFile (readFile stubEnv) fp (expectedTemplateOf (QUESTION_TEMPLATES ! 3))
     (taskType (QUESTION_TEMPLATES ! 3)) = Inr bookTwoEvaluation"
proof -
  have "readFile stubEnv = (\<lambda>_. Some bookTwo)" by (simp add: stubEnv_def)
  then show ?thesis by (simp add: template3 evaluate_bookTwo)
qed

theorem practical_task_overall_score_witness:
  "evaluateExcelFile (readFile stubEnv) ''upload.xlsx''
     (expectedTemplateOf (QUESTION_TEMPLATES ! 3)) (taskType (QUESTION_TEMPLATES ! 3))
     = Inr bookTwoEvaluation
   \<and> (\<exists>fb. fst (evaluatePracticalTask stubEnv 0 (QUESTION_TEMPLATES ! 3) ''upload.xlsx''
                    ''Done.'' startedDb) = Inr (fb, Num 97))
   \<and> score (last (interviewQuestions
         (snd (evaluatePracticalTask stubEnv 0 (QUESTION_TEMPLATES ! 3) ''upload.xlsx''
                 ''Done.'' startedDb)))) = Some (Num 97)"
proof -
  have v: "formulaAccuracy bookTwoEvaluation = 100" "structureScore bookTwoEvaluation = 100"
    "bestPracticesScore bookTwoEvaluation = 85"
    by (simp_all add: bookTwoEvaluation_def)
  from practical_task_overall_score
         [OF evaluate_stub, where fp = "''upload.xlsx''" and sid = 0 and msg = "''Done.''"
                              and d = startedDb]
  show ?thesis
    by (simp only: v practical_97 evaluate_stub simp_thms)
qed

text \<open>
  Claim C1. When the completion routine succeeds, the session holds the four category
  averages and, as overall score, the rounded sum of practical times 0.5, conceptual
  times 0.25, explanation times 0.15 and behavioral times 0.1; the final chat message
  carries the same number. For 90, 70, 50 and 80 this is 78.
\<close>

theorem completeInterview_overall_score:
  assumes "sessions d sid = Some s"
    and "fst (completeInterview e sid d) = Inr ()"
  shows "(\<exists>s'. sessions (snd (completeInterview e sid d)) sid = Some s'
             \<and> status s' = completed
             \<and> practicalScore s' = Some (categoryAverage practical sid d)
             \<and> conceptualScore s' = Some (categoryAverage conceptual sid d)
             \<and> explanationScore s' = Some (categoryAverage explanation sid d)
             \<and> behavioralScore s' = Some (categoryAverage behavioral sid d)
             \<and> overallScore s' =
                 Some (spec_overall (categoryAverage practical sid d)
                         (categoryAverage conceptual sid d)
                         (categoryAverage explanation sid d)
                         (categoryAverage behavioral sid d)))
       \<and> metadata (last (chatMessages (snd (completeInterview e sid d)))) =
           Some (CompleteMeta (spec_overall (categoryAverage practical sid d)
                                 (categoryAverage conceptual sid d)
                                 (categoryAverage explanation sid d)
                                 (categoryAverage behavioral sid d)))
       \<and> spec_overall (Num 90) (Num 70) (Num 50) (Num 80) = Num 78"
proof -
  have "(\<exists>s'. sessions (snd (completeInterview e sid d)) sid = Some s'
             \<and> status s' = completed
             \<and> practicalScore s' = Some (categoryAverage practical sid d)
             \<and> conceptualScore s' = Some (categoryAverage conceptual sid d)
             \<and> explanationScore s' = Some (categoryAverage explanation sid d)
             \<and> behavioralScore s' = Some (categoryAverage behavioral sid d)
             \<and> overallScore s' =
                 Some (spec_overall (categoryAverage practical sid d)
                         (categoryAverage conceptual sid d)
                         (categoryAverage explanation sid d)
                         (categoryAverage behavioral sid d)))
       \<and> metadata (last (chatMessages (snd (completeInterview e sid d)))) =
           Some (CompleteMeta (spec_overall (categoryAverage practical sid d)
                                 (categoryAverage conceptual sid d)
                                 (categoryAverage explanation sid d)
                                 (categoryAverage behavioral sid d)))"
    using assms
    by (auto simp: completeInterview_def Let_def updateInterviewSession_def categoryAverage_def
                   spec_overall_def addChatMessage_def
             split: option.splits)
  then show ?thesis using overall_78 by blast
qed

lemma startedDb_session: "sessions startedDb 0 = Some startedSession"
  by (simp add: startedDb_def startedSession_def startInterview_def createInterviewSession_def
                addChatMessage_def emptyDb_def Let_def)

lemma scoredDb_session: "sessions scoredDb 0 = Some startedSession"
  by (simp add: scoredDb_def startedDb_session)

lemma scoredDb_questions:
  "getSessionQuestions 0 scoredDb =
     [scoredRow practical 90, scoredRow conceptual 70,
      scoredRow explanation 50, scoredRow behavioral 80]"
proof -
  have "q_sessionId (scoredRow c x) = 0" "questionIndex (scoredRow c x) = 0" for c x
    by (simp_all add: scoredRow_def)
  then show ?thesis
    by (simp add: getSessionQuestions_def scoredDb_def)
qed

lemma scoredDb_averages:
  "categoryAverage practical 0 scoredDb = Num 90"
  "categoryAverage conceptual 0 scoredDb = Num 70"
  "categoryAverage explanation 0 scoredDb = Num 50"
  "categoryAverage behavioral 0 scoredDb = Num 80"
proof -
  have "q_category (scoredRow c x) = c" for c x
    by (simp add: scoredRow_def)
  then show "categoryAverage practical 0 scoredDb = Num 90"
    "categoryAverage conceptual 0 scoredDb = Num 70"
    "categoryAverage explanation 0 scoredDb = Num 50"
    "categoryAverage behavioral 0 scoredDb = Num 80"
    by (simp_all add: categoryAverage_def scoredDb_questions average_single)
qed

lemma complete_stub: "fst (completeInterview stubEnv sid d) = Inr ()"
proof -
  have "generateFinalReport stubEnv =
          (\<lambda>_ _ _ _ _ _. Some \<lparr>fr_strengths = [], fr_improvements = [], fr_recommendations = []\<rparr>)"
    by (simp add: stubEnv_def)
  then show ?thesis by (simp add: completeInterview_def Let_def)
qed

theorem completeInterview_overall_score_witness:
  "sessions scoredDb 0 = Some startedSession
   \<and> fst (completeInterview stubEnv 0 scoredDb) = Inr ()
   \<and> (\<exists>s'. sessions (snd (completeInterview stubEnv 0 scoredDb)) 0 = Some s'
           \<and> practicalScore s' = Some (Num 90) \<and> conceptualScore s' = Some (Num 70)
           \<and> explanationScore s' = Some (Num 50) \<and> behavioralScore s' = Some (Num 80)
           \<and> overallScore s' = Some (Num 78))
   \<and> metadata (last (chatMessages (snd (completeInterview stubEnv 0 scoredDb)))) =
       Some (CompleteMeta (Num 78))"
  using completeInterview_overall_score [OF scoredDb_session complete_stub]
    scoredDb_session complete_stub [of 0 scoredDb]
  by (simp only: scoredDb_averages overall_78 simp_thms) blast

section \<open>The question script as a state machine\<close>

lemma length_QUESTION_TEMPLATES: "length QUESTION_TEMPLATES = 8"
  by (simp add: QUESTION_TEMPLATES_def)

lemma sessions_addChatMessage [simp]: "sessions (addChatMessage m d) = sessions d"
  by (simp add: addChatMessage_def)

lemma sessions_addInterviewQuestion [simp]: "sessions (addInterviewQuestion q d) = sessions d"
  by (simp add: addInterviewQuestion_def)

lemma sessions_addExcelEvaluation [simp]: "sessions (addExcelEvaluation x d) = sessions d"
  by (simp add: addExcelEvaluation_def)

lemma sessions_evaluatePracticalTask:
  "evaluatePracticalTask e sid q fp msg d = (r, d1) \<Longrightarrow> sessions d1 = sessions d"
  by (auto simp: evaluatePracticalTask_def Let_def split: sum.splits)

lemma answerStep_frame:
  assumes "answerStep e sid s q msg fp d = (r, d1)"
  shows "sessions d1 = sessions d"
    and "r = Inr (reply, n) \<Longrightarrow> n = currentQuestionIndex s \<or> n = currentQuestionIndex s + 1"
  using assms
  by (auto simp: answerStep_def Let_def dest: sessions_evaluatePracticalTask
           split: if_splits prod.splits sum.splits option.splits)

lemma completeInterview_frame:
  assumes "completeInterview e sid d = (r, d1)"
  shows "sessions d sid = None \<Longrightarrow> sessions d1 = sessions d"
    and "sessions d sid = Some s \<Longrightarrow>
           sessions d1 = sessions d \<and> r = Inl AIFailure \<or>
           (\<exists>s'. sessions d1 = (sessions d)(sid := Some s') \<and> r = Inr ()
                 \<and> currentQuestionIndex s' = currentQuestionIndex s
                 \<and> totalQuestions s' = totalQuestions s \<and> status s' = completed)"
  using assms
  by (auto simp: completeInterview_def Let_def updateInterviewSession_def split: option.splits)

lemma askNext_frame:
  assumes "askNext e sid reply n d = (r, d1)" and "sessions d sid = Some s"
  shows "sessions d1 = sessions d \<and> (\<exists>err. r = Inl err) \<or>
         (\<exists>s'. sessions d1 = (sessions d)(sid := Some s')
               \<and> (\<exists>res. r = Inr res)
               \<and> currentQuestionIndex s' = n
               \<and> totalQuestions s' = totalQuestions s
               \<and> status s' = (if 8 \<le> n then completed else in_progress))"
proof (cases "int (length QUESTION_TEMPLATES) \<le> n")
  case True
  obtain r0 d0 where c: "completeInterview e sid d = (r0, d0)" by (cases "completeInterview e sid d")
  from completeInterview_frame(2) [OF c assms(2)] show ?thesis
    using assms True c
    by (auto simp: askNext_def Let_def updateInterviewSession_def length_QUESTION_TEMPLATES
             split: sum.splits option.splits)
next
  case False
  then show ?thesis
    using assms
    by (auto simp: askNext_def Let_def updateInterviewSession_def length_QUESTION_TEMPLATES
             split: sum.splits option.splits if_splits)
qed

lemma processUserMessage_missing:
  "sessions d sid = None \<Longrightarrow> processUserMessage e sid msg fp d = (Inl SessionNotFound, d)"
  by (simp add: processUserMessage_def getInterviewSession_def)

lemma processUserMessage_frame:
  assumes "processUserMessage e sid msg fp d = (r, d1)" and "sessions d sid = Some s"
  shows "\<exists>s'. sessions d1 = (sessions d)(sid := Some s')
             \<and> totalQuestions s' = totalQuestions s
             \<and> (s' = s
                \<or> currentQuestionIndex s = - 1 \<and> s' = s\<lparr>currentQuestionIndex := 0\<rparr>
                \<or> 0 \<le> currentQuestionIndex s \<and> currentQuestionIndex s < 8
                   \<and> (currentQuestionIndex s' = currentQuestionIndex s
                      \<or> currentQuestionIndex s' = currentQuestionIndex s + 1)
                   \<and> status s' = (if 8 \<le> currentQuestionIndex s' then completed else in_progress))"
proof (cases "currentQuestionIndex s = - 1")
  case True
  then show ?thesis
    using assms
    by (auto simp: processUserMessage_def getInterviewSession_def Let_def updateInterviewSession_def)
next
  case notfirst: False
  show ?thesis
  proof (cases "templateAt (currentQuestionIndex s)")
    case None
    then have "sessions d1 = sessions d"
      using assms notfirst
      by (auto simp: processUserMessage_def getInterviewSession_def Let_def)
    then have "sessions d1 = (sessions d)(sid := Some s)"
      using assms(2) by (simp add: fun_upd_idem)
    then show ?thesis by blast
  next
    case (Some q)
    then have rng: "0 \<le> currentQuestionIndex s \<and> currentQuestionIndex s < 8"
      by (auto simp: templateAt_def length_QUESTION_TEMPLATES split: if_splits)
    let ?d0 = "addChatMessage (userChatMessage sid msg fp) d"
    obtain ra da where a: "answerStep e sid s q msg fp ?d0 = (ra, da)"
      by (cases "answerStep e sid s q msg fp ?d0")
    have sa: "sessions da = sessions d" using answerStep_frame(1) [OF a] by simp
    show ?thesis
    proof (cases ra)
      case (Inl err)
      then have "d1 = da" using assms notfirst Some a
        by (auto simp: processUserMessage_def getInterviewSession_def Let_def)
      then have "sessions d1 = (sessions d)(sid := Some s)"
        using sa assms(2) by (simp add: fun_upd_idem)
      then show ?thesis by blast
    next
      case (Inr p)
      obtain reply n where p: "p = (reply, n)" by (cases p)
      have n: "n = currentQuestionIndex s \<or> n = currentQuestionIndex s + 1"
        using answerStep_frame(2) [OF a] Inr p by blast
      have k: "askNext e sid reply n da = (r, d1)"
        using assms notfirst Some a Inr p
        by (auto simp: processUserMessage_def getInterviewSession_def Let_def)
      have "sessions da sid = Some s" using sa assms(2) by simp
      from askNext_frame [OF k this] show ?thesis
      proof
        assume "sessions d1 = sessions da \<and> (\<exists>err. r = Inl err)"
        then have "sessions d1 = (sessions d)(sid := Some s)"
          using sa assms(2) by (simp add: fun_upd_idem)
        then show ?thesis by blast
      next
        assume "\<exists>s'. sessions d1 = (sessions da)(sid := Some s') \<and> (\<exists>res. r = Inr res)
                   \<and> currentQuestionIndex s' = n \<and> totalQuestions s' = totalQuestions s
                   \<and> status s' = (if 8 \<le> n then completed else in_progress)"
        then obtain s' where s': "sessions d1 = (sessions da)(sid := Some s')"
          "currentQuestionIndex s' = n" "totalQuestions s' = totalQuestions s"
          "status s' = (if 8 \<le> n then completed else in_progress)" by blast
        show ?thesis
          using s' sa rng n by (intro exI [of _ s']) auto
      qed
    qed
  qed
qed

lemma startInterview_sessions:
  "sessions (snd (startInterview uid d)) =
     (sessions d)(nextId d := Some (fst (startInterview uid d)))"
  by (simp add: startInterview_def createInterviewSession_def Let_def)

lemma startInterview_session:
  "currentQuestionIndex (fst (startInterview uid d)) = - 1
   \<and> status (fst (startInterview uid d)) = in_progress
   \<and> totalQuestions (fst (startInterview uid d)) = int (length QUESTION_TEMPLATES)
   \<and> session_id (fst (startInterview uid d)) = nextId d"
  by (simp add: startInterview_def createInterviewSession_def Let_def)

lemma reachable_inv:
  "reachable d \<Longrightarrow> sessions d sid = Some s \<Longrightarrow> sessionInv s"
proof (induction arbitrary: sid s rule: reachable.induct)
  case reachable_empty
  then show ?case by (simp add: emptyDb_def)
next
  case (reachable_start d uid)
  show ?case
  proof (cases "sid = nextId d")
    case True
    then have "s = fst (startInterview uid d)"
      using reachable_start.prems by (simp add: startInterview_sessions)
    then show ?thesis
      by (simp add: startInterview_session sessionInv_def length_QUESTION_TEMPLATES)
  next
    case False
    then have "sessions d sid = Some s"
      using reachable_start.prems by (simp add: startInterview_sessions)
    then show ?thesis by (rule reachable_start.IH)
  qed
next
  case (reachable_turn d e sid' msg fp)
  obtain r d1 where t: "processUserMessage e sid' msg fp d = (r, d1)"
    by (cases "processUserMessage e sid' msg fp d")
  show ?case
  proof (cases "sessions d sid'")
    case None
    then have "d1 = d" using t by (simp add: processUserMessage_missing)
    then show ?thesis using reachable_turn t by simp
  next
    case (Some s0)
    have i0: "sessionInv s0" using reachable_turn.IH Some by blast
    from processUserMessage_frame [OF t Some] obtain s' where
      s': "sessions d1 = (sessions d)(sid' := Some s')" "totalQuestions s' = totalQuestions s0"
        "s' = s0
         \<or> currentQuestionIndex s0 = - 1 \<and> s' = s0\<lparr>currentQuestionIndex := 0\<rparr>
         \<or> 0 \<le> currentQuestionIndex s0 \<and> currentQuestionIndex s0 < 8
            \<and> (currentQuestionIndex s' = currentQuestionIndex s0
               \<or> currentQuestionIndex s' = currentQuestionIndex s0 + 1)
            \<and> status s' = (if 8 \<le> currentQuestionIndex s' then completed else in_progress)"
      by blast
    have "sessionInv s'"
      using i0 s'(2,3) by (auto simp: sessionInv_def length_QUESTION_TEMPLATES split: if_splits)
    then show ?thesis
      using reachable_turn.prems reachable_turn.IH s'(1) t
      by (auto split: if_splits)
  qed
qed


lemma runTurns_reachable: "reachable d \<Longrightarrow> reachable (runTurns ts d)"
proof (induction ts arbitrary: d)
  case Nil
  then show ?case by simp
next
  case (Cons t ts)
  obtain e sid msg fp where t: "t = (e, sid, msg, fp)" by (cases t)
  show ?case
    using Cons.IH [OF reachable_turn [OF Cons.prems, of e sid msg fp]] t by simp
qed

lemma turn_step:
  assumes "reachable d" and "sessions d k = Some s"
  shows "\<exists>s'. sessions (snd (processUserMessage e sid msg fp d)) k = Some s'
             \<and> currentQuestionIndex s \<le> currentQuestionIndex s'
             \<and> (status s' = status s \<or> status s = in_progress \<and> status s' = completed)"
proof -
  obtain r d1 where t: "processUserMessage e sid msg fp d = (r, d1)"
    by (cases "processUserMessage e sid msg fp d")
  show ?thesis
  proof (cases "sessions d sid")
    case None
    then have "d1 = d" using t by (simp add: processUserMessage_missing)
    then show ?thesis using assms t by simp
  next
    case (Some s0)
    have i0: "sessionInv s0" using reachable_inv [OF assms(1) Some] .
    from processUserMessage_frame [OF t Some] obtain s' where
      s': "sessions d1 = (sessions d)(sid := Some s')" "totalQuestions s' = totalQuestions s0"
        "s' = s0
         \<or> currentQuestionIndex s0 = - 1 \<and> s' = s0\<lparr>currentQuestionIndex := 0\<rparr>
         \<or> 0 \<le> currentQuestionIndex s0 \<and> currentQuestionIndex s0 < 8
            \<and> (currentQuestionIndex s' = currentQuestionIndex s0
               \<or> currentQuestionIndex s' = currentQuestionIndex s0 + 1)
            \<and> status s' = (if 8 \<le> currentQuestionIndex s' then completed else in_progress)"
      by blast
    show ?thesis
    proof (cases "k = sid")
      case True
      then have "s0 = s" using Some assms(2) by simp
      then have "currentQuestionIndex s \<le> currentQuestionIndex s'
                 \<and> (status s' = status s \<or> status s = in_progress \<and> status s' = completed)"
        using i0 s'(2,3)
        by (auto simp: sessionInv_def length_QUESTION_TEMPLATES split: if_splits)
      then show ?thesis using True s'(1) t by simp
    next
      case False
      then show ?thesis using s'(1) t assms(2) by simp
    qed
  qed
qed

lemma turns_steps:
  "reachable d \<Longrightarrow> sessions d k = Some s \<Longrightarrow>
     \<exists>s'. sessions (runTurns ts d) k = Some s'
          \<and> currentQuestionIndex s \<le> currentQuestionIndex s'
          \<and> (status s' = status s \<or> status s = in_progress \<and> status s' = completed)"
proof (induction ts arbitrary: d s)
  case Nil
  then show ?case by simp
next
  case (Cons t ts)
  obtain e sid msg fp where t: "t = (e, sid, msg, fp)" by (cases t)
  let ?d1 = "snd (processUserMessage e sid msg fp d)"
  from turn_step [OF Cons.prems, of e sid msg fp] obtain s1 where
    s1: "sessions ?d1 k = Some s1" "currentQuestionIndex s \<le> currentQuestionIndex s1"
      "status s1 = status s \<or> status s = in_progress \<and> status s1 = completed"
    by blast
  have "reachable ?d1" using Cons.prems(1) by (rule reachable_turn)
  from Cons.IH [OF this s1(1)] obtain s' where
    s': "sessions (runTurns ts ?d1) k = Some s'"
      "currentQuestionIndex s1 \<le> currentQuestionIndex s'"
      "status s' = status s1 \<or> status s1 = in_progress \<and> status s' = completed"
    by blast
  have "currentQuestionIndex s \<le> currentQuestionIndex s'
        \<and> (status s' = status s \<or> status s = in_progress \<and> status s' = completed)"
    using s1(2,3) s'(2,3) by auto
  then show ?case using s'(1) t by simp
qed

text \<open>
  Claim C2. A session starts with index -1. Along every sequence of turns, on any
  sessions, from a state the controller can be in, the index of a session never
  decreases and never exceeds the number of questions, and its status stays what it is
  or goes from in progress to completed; it is never abandoned.
\<close>

theorem index_monotone_status_forward:
  assumes "reachable d" and "sessions d k = Some s"
  shows "currentQuestionIndex (fst (startInterview uid d)) = - 1
       \<and> status (fst (startInterview uid d)) = in_progress
       \<and> sessions (snd (startInterview uid d)) (session_id (fst (startInterview uid d)))
           = Some (fst (startInterview uid d))
       \<and> (\<exists>s'. sessions (runTurns ts d) k = Some s'
               \<and> - 1 \<le> currentQuestionIndex s
               \<and> currentQuestionIndex s \<le> currentQuestionIndex s'
               \<and> currentQuestionIndex s' \<le> totalQuestions s'
               \<and> totalQuestions s' = int (length QUESTION_TEMPLATES)
               \<and> (status s' = status s \<or> status s = in_progress \<and> status s' = completed)
               \<and> status s' \<noteq> abandoned)"
proof -
  from turns_steps [OF assms, of ts] obtain s' where
    s': "sessions (runTurns ts d) k = Some s'"
      "currentQuestionIndex s \<le> currentQuestionIndex s'"
      "status s' = status s \<or> status s = in_progress \<and> status s' = completed"
    by blast
  have "sessionInv s" using reachable_inv [OF assms] .
  moreover have "sessionInv s'"
    using reachable_inv [OF runTurns_reachable [OF assms(1)] s'(1)] .
  ultimately have "- 1 \<le> currentQuestionIndex s
      \<and> currentQuestionIndex s' \<le> totalQuestions s'
      \<and> totalQuestions s' = int (length QUESTION_TEMPLATES)
      \<and> status s' \<noteq> abandoned"
    by (auto simp: sessionInv_def split: if_splits)
  then show ?thesis
    using s' by (simp add: startInterview_session startInterview_sessions)
qed

lemma startedDb_reachable: "reachable startedDb"
  unfolding startedDb_def by (rule reachable_start [OF reachable_empty])

theorem index_monotone_status_forward_witness:
  "reachable startedDb \<and> sessions startedDb 0 = Some startedSession
   \<and> (\<exists>s'. sessions (runTurns [(stubEnv, 0, ''Yes'', None), (stubEnv, 0, ''An answer'', None)]
                        startedDb) 0 = Some s'
           \<and> - 1 \<le> currentQuestionIndex startedSession
           \<and> currentQuestionIndex startedSession \<le> currentQuestionIndex s'
           \<and> currentQuestionIndex s' \<le> totalQuestions s'
           \<and> (status s' = status startedSession
              \<or> status startedSession = in_progress \<and> status s' = completed)
           \<and> status s' \<noteq> abandoned)"
  using index_monotone_status_forward [OF startedDb_reachable startedDb_session]
    startedDb_reachable startedDb_session
  by blast

subsection \<open>The first turn\<close>

lemma first_turn:
  assumes "sessions d sid = Some s" and "currentQuestionIndex s = - 1"
  shows "processUserMessage e sid msg fp d =
           (Inr (Some (s\<lparr>currentQuestionIndex := 0\<rparr>),
                 getSessionMessages sid d @ [userChatMessage sid msg fp, firstQuestionMessage sid]),
            d\<lparr>sessions := (sessions d)(sid := Some (s\<lparr>currentQuestionIndex := 0\<rparr>)),
              chatMessages := chatMessages d @ [userChatMessage sid msg fp, firstQuestionMessage sid]\<rparr>)"
  using assms
  by (simp add: processUserMessage_def getInterviewSession_def Let_def updateInterviewSession_def
                addChatMessage_def getSessionMessages_def userChatMessage_def
                firstQuestionMessage_def)

text \<open>
  Claim C5. On a session with index -1 a turn returns; it sets the index to 0, appends
  the user's message and then an AI message that ends with the text of question 0,
  stores no question row and no spreadsheet evaluation, and does the same whatever the
  AI client and the spreadsheet reader would answer.
\<close>

theorem first_turn_no_scoring:
  assumes "sessions d sid = Some s" and "currentQuestionIndex s = - 1"
  shows "(\<exists>ms. fst (processUserMessage e sid msg fp d)
                 = Inr (Some (s\<lparr>currentQuestionIndex := 0\<rparr>), ms))
       \<and> sessions (snd (processUserMessage e sid msg fp d)) sid
           = Some (s\<lparr>currentQuestionIndex := 0\<rparr>)
       \<and> chatMessages (snd (processUserMessage e sid msg fp d))
           = chatMessages d @ [userChatMessage sid msg fp, firstQuestionMessage sid]
       \<and> sender (firstQuestionMessage sid) = ai
       \<and> content (firstQuestionMessage sid)
           = ''Great! Let's begin with our first question:\<newline>\<newline>''
             @ question (QUESTION_TEMPLATES ! 0)
       \<and> interviewQuestions (snd (processUserMessage e sid msg fp d)) = interviewQuestions d
       \<and> excelEvaluations (snd (processUserMessage e sid msg fp d)) = excelEvaluations d
       \<and> processUserMessage e' sid msg fp d = processUserMessage e sid msg fp d"
  by (simp add: first_turn [OF assms] firstQuestionMessage_def)

lemma startedSession_index: "currentQuestionIndex startedSession = - 1"
  by (simp add: startedSession_def startInterview_session)

theorem first_turn_no_scoring_witness:
  "sessions startedDb 0 = Some startedSession \<and> currentQuestionIndex startedSession = - 1
   \<and> sessions (snd (processUserMessage stubEnv 0 ''Yes'' None startedDb)) 0
       = Some (startedSession\<lparr>currentQuestionIndex := 0\<rparr>)
   \<and> chatMessages (snd (processUserMessage stubEnv 0 ''Yes'' None startedDb))
       = chatMessages startedDb @ [userChatMessage 0 ''Yes'' None, firstQuestionMessage 0]
   \<and> interviewQuestions (snd (processUserMessage stubEnv 0 ''Yes'' None startedDb))
       = interviewQuestions startedDb"
  using first_turn_no_scoring [OF startedDb_session startedSession_index]
    startedDb_session startedSession_index
  by blast

subsection \<open>A practical question answered without a file\<close>

lemma template_categories:
  "map category QUESTION_TEMPLATES =
     [conceptual, conceptual, practical, practical, explanation, conceptual, behavioral,
      conceptual]"
  "map taskType QUESTION_TEMPLATES =
     [None, None, Some ''data_cleanup'', Some ''sales_analysis'', None, None, None, None]"
  by (simp_all add: QUESTION_TEMPLATES_def)

lemma templateAt_Some:
  assumes "templateAt i = Some q"
  shows "0 \<le> i" and "i < 8" and "q = QUESTION_TEMPLATES ! nat i"
  using assms by (auto simp: templateAt_def length_QUESTION_TEMPLATES split: if_splits)

lemma practical_has_task:
  assumes "templateAt i = Some q" and "category q = practical"
  shows "truthy (taskType q)"
proof -
  note t = templateAt_Some [OF assms(1)]
  have n: "nat i < length QUESTION_TEMPLATES" using t by (simp add: length_QUESTION_TEMPLATES)
  have c: "category q = map category QUESTION_TEMPLATES ! nat i"
    and k: "taskType q = map taskType QUESTION_TEMPLATES ! nat i"
    using t(3) n by simp_all
  have "nat i \<in> {0, 1, 2, 3, 4, 5, 6, 7}" using t(1,2) by auto
  then show ?thesis
    using assms(2) unfolding c k template_categories
    by (auto simp: truthy_def)
qed

lemma answerStep_no_file:
  "category q = practical \<Longrightarrow> \<not> truthy fp \<Longrightarrow>
     answerStep e sid s q msg fp d = (Inr ([], currentQuestionIndex s), d)"
  by (simp add: answerStep_def Let_def)

lemma askNext_practical:
  assumes "templateAt n = Some q" and "category q = practical" and "sessions d sid = Some s"
  shows "askNext e sid reply n d =
     (Inr (Some (s\<lparr>currentQuestionIndex := n, status := in_progress\<rparr>),
           getSessionMessages sid d
           @ [\<lparr>sessionId = sid, sender = ai,
               content = reply @ ''\<newline>\<newline>Let's move to our next question:\<newline>\<newline>'' @ question q
                         @ ''\<newline>\<newline>I'll provide you with a template file to work with. Please download it, complete the task, and upload your solution.'',
               messageType = mt_text, metadata = None\<rparr>,
              templateDownloadMessage sid q]),
      d\<lparr>sessions := (sessions d)(sid := Some (s\<lparr>currentQuestionIndex := n,
                                                 status := in_progress\<rparr>)),
        chatMessages := chatMessages d
           @ [\<lparr>sessionId = sid, sender = ai,
               content = reply @ ''\<newline>\<newline>Let's move to our next question:\<newline>\<newline>'' @ question q
                         @ ''\<newline>\<newline>I'll provide you with a template file to work with. Please download it, complete the task, and upload your solution.'',
               messageType = mt_text, metadata = None\<rparr>,
              templateDownloadMessage sid q]\<rparr>)"
proof -
  have "n < 8" using templateAt_Some(2) [OF assms(1)] .
  moreover have "truthy (taskType q)" using practical_has_task [OF assms(1,2)] .
  ultimately show ?thesis
    using assms
    by (simp add: askNext_def Let_def updateInterviewSession_def addChatMessage_def
                  getSessionMessages_def length_QUESTION_TEMPLATES
                  templateDownloadMessage_def)
qed

lemma practical_no_file_turn:
  assumes "sessions d sid = Some s" and "templateAt (currentQuestionIndex s) = Some q"
    and "category q = practical" and "\<not> truthy fp"
  shows "processUserMessage e sid msg fp d =
     askNext e sid [] (currentQuestionIndex s) (addChatMessage (userChatMessage sid msg fp) d)"
proof -
  have "currentQuestionIndex s \<noteq> - 1" using templateAt_Some(1) [OF assms(2)] by simp
  then show ?thesis
    using assms
    by (simp add: processUserMessage_def getInterviewSession_def Let_def answerStep_no_file)
qed

text \<open>
  Claim C9. When the current question is a practical one and the turn brings no file,
  the turn returns with the index unchanged, stores no question row and no spreadsheet
  evaluation, and appends three chat messages: the user's, an AI reply that asks the
  same question again and announces a template, and a template download message for
  the task of that question. No answer of the AI client or the spreadsheet reader is
  used.
\<close>

theorem practical_without_file_repeats:
  assumes "sessions d sid = Some s" and "templateAt (currentQuestionIndex s) = Some q"
    and "category q = practical" and "\<not> truthy fp"
  shows "(\<exists>ms. fst (processUserMessage e sid msg fp d)
                 = Inr (Some (s\<lparr>status := in_progress\<rparr>), ms))
       \<and> sessions (snd (processUserMessage e sid msg fp d)) sid
           = Some (s\<lparr>status := in_progress\<rparr>)
       \<and> interviewQuestions (snd (processUserMessage e sid msg fp d)) = interviewQuestions d
       \<and> excelEvaluations (snd (processUserMessage e sid msg fp d)) = excelEvaluations d
       \<and> chatMessages (snd (processUserMessage e sid msg fp d))
           = chatMessages d
             @ [userChatMessage sid msg fp,
                \<lparr>sessionId = sid, sender = ai,
                 content = ''\<newline>\<newline>Let's move to our next question:\<newline>\<newline>'' @ question q
                           @ ''\<newline>\<newline>I'll provide you with a template file to work with. Please download it, complete the task, and upload your solution.'',
                 messageType = mt_text, metadata = None\<rparr>,
                templateDownloadMessage sid q]
       \<and> messageType (templateDownloadMessage sid q) = mt_template_download
       \<and> metadata (templateDownloadMessage sid q)
           = Some (TemplateMeta (the (taskType q)) (timeLimit q))
       \<and> processUserMessage e' sid msg fp d = processUserMessage e sid msg fp d"
proof -
  let ?d1 = "addChatMessage (userChatMessage sid msg fp) d"
  have s1: "sessions ?d1 sid = Some s" using assms(1) by simp
  have u: "s\<lparr>currentQuestionIndex := currentQuestionIndex s, status := in_progress\<rparr>
           = s\<lparr>status := in_progress\<rparr>"
    by simp
  show ?thesis
    unfolding practical_no_file_turn [OF assms] askNext_practical [OF assms(2,3) s1] u
    by (simp add: addChatMessage_def templateDownloadMessage_def)
qed

lemma dbAt_session: "sessions (dbAt i) 0 = Some (startedSession\<lparr>currentQuestionIndex := i\<rparr>)"
  by (simp add: dbAt_def)

lemma templateAt_3: "templateAt 3 = Some (QUESTION_TEMPLATES ! 3)"
  by (simp add: templateAt_def length_QUESTION_TEMPLATES)

lemma category_3: "category (QUESTION_TEMPLATES ! 3) = practical"
  by (simp add: QUESTION_TEMPLATES_def)

theorem practical_without_file_repeats_witness:
  "sessions (dbAt 3) 0 = Some (startedSession\<lparr>currentQuestionIndex := 3\<rparr>)
   \<and> templateAt (currentQuestionIndex (startedSession\<lparr>currentQuestionIndex := 3\<rparr>))
       = Some (QUESTION_TEMPLATES ! 3)
   \<and> category (QUESTION_TEMPLATES ! 3) = practical \<and> \<not> truthy None
   \<and> sessions (snd (processUserMessage stubEnv 0 ''Here it is'' None (dbAt 3))) 0
       = Some (startedSession\<lparr>currentQuestionIndex := 3, status := in_progress\<rparr>)
   \<and> interviewQuestions (snd (processUserMessage stubEnv 0 ''Here it is'' None (dbAt 3)))
       = interviewQuestions (dbAt 3)
   \<and> length (chatMessages (snd (processUserMessage stubEnv 0 ''Here it is'' None (dbAt 3))))
       = length (chatMessages (dbAt 3)) + 3"
proof -
  have h2: "templateAt (currentQuestionIndex (startedSession\<lparr>currentQuestionIndex := 3\<rparr>))
              = Some (QUESTION_TEMPLATES ! 3)"
    by (simp add: templateAt_3)
  have h4: "\<not> truthy None" by (simp add: truthy_def)
  from practical_without_file_repeats [OF dbAt_session h2 category_3 h4]
  show ?thesis
    using dbAt_session [of 3] h2 category_3 h4 by simp
qed

subsection \<open>A turn on a completed session\<close>















section \<open>Requests on a session that does not exist\<close>




end
